theory Spec2Isabelle
  imports Complex_Main
begin

section \<open>Values shared by the quote and booking lifecycles\<close>

text \<open>
  Document identifiers are opaque; they are numbered here. A date is the millisecond
  count a JavaScript \<open>Date\<close> holds, read on the server's local time line (a fixed offset
  from UTC, so a calendar day is always \<open>msPerDay\<close> long). Prices are exact rationals,
  counts of days and passengers are whole numbers.
\<close>

type_synonym objectId = nat
type_synonym date = int

definition msPerDay :: int where
  "msPerDay = 1000 * 60 * 60 * 24"

text \<open>\<open>d.setHours(0, 0, 0, 0)\<close>: the start of the day that contains \<open>d\<close>.\<close>

definition startOfDay :: "date \<Rightarrow> date" where
  "startOfDay d = d - d mod msPerDay"

text \<open>\<open>d.setDate(d.getDate() + n)\<close>: the same time of day, \<open>n\<close> calendar days later.\<close>

definition addDays :: "date \<Rightarrow> int \<Rightarrow> date" where
  "addDays d n = d + n * msPerDay"

text \<open>
  The schemas declare several strings with \<open>trim: true\<close>: a value assigned to such a
  path is stored without its leading and trailing white space.
\<close>

definition isSpace :: "char \<Rightarrow> bool" where
  "isSpace c = (c \<in> set [CHR '' '', CHR 0x09, CHR 0x0A, CHR 0x0B, CHR 0x0C, CHR 0x0D])"

definition trim :: "string \<Rightarrow> string" where
  "trim s = rev (dropWhile isSpace (rev (dropWhile isSpace s)))"

text \<open>JavaScript truthiness of an optional string: absent and empty are falsy.\<close>

fun truthy :: "string option \<Rightarrow> bool" where
  "truthy None = False"
| "truthy (Some s) = (s \<noteq> [])"

text \<open>Documents are held in populated form: the user reference is the user's document.\<close>

record user =
  user_id :: objectId
  firstName :: string
  lastName :: string
  email :: string

text \<open>
  Modelled from the spec: the user model and its \<open>getFullName\<close> are missing from the
  sources. The full name is the first and the last name with a blank between them, as the
  spec joins them in the title of a calendar event.
\<close>

definition getFullName :: "user \<Rightarrow> string" where
  "getFullName u = firstName u @ '' '' @ lastName u"

text \<open>
  What a rejected promise or a thrown error carries. A schema violation lists the messages
  of the validators that failed; every other error has a message text. The text that the
  library renders for a schema violation is represented by the messages in a row.
\<close>

datatype exn = ValidationError "string list" | Error string

fun exnMessage :: "exn \<Rightarrow> string" where
  "exnMessage (Error m) = m"
| "exnMessage (ValidationError ms) = ''Validation failed: '' @ concat (map (\<lambda>m. m @ ''; '') ms)"

text \<open>
  The JSON body of an HTTP response, with its status code. The message is empty where the
  answer has none; the count that goes with a list and the error text that the development
  mode adds to a 500 answer are left out.
\<close>

record 'a response =
  r_code :: nat
  r_success :: bool
  r_message :: string
  r_data :: "'a option"
  r_warning :: "string option"

definition reply :: "nat \<Rightarrow> bool \<Rightarrow> string \<Rightarrow> 'a response" where
  "reply c ok m = \<lparr>r_code = c, r_success = ok, r_message = m, r_data = None, r_warning = None\<rparr>"

text \<open>The authenticated request: the acting user and the origin recorded in audit entries.\<close>

record request =
  req_user :: objectId
  req_ip :: string
  req_userAgent :: "string option"

section \<open>Quote requests\<close>

record quoteRequest =
  q_id :: objectId
  q_user :: user
  q_pickupLocation :: string
  q_dropoffLocation :: string
  q_numberOfDays :: int
  q_busType :: string
  q_numberOfPassengers :: int
  q_departureDate :: date
  q_specialRequests :: "string option"
  q_status :: string
  q_estimatedPrice :: "rat option"
  q_adminNotes :: "string option"

text \<open>
  The validators of the quote schema, in the order of its paths. Each yields the message of
  the schema when it fails. \<open>today\<close> is the start of the current day.
\<close>

definition capacityOk :: "string \<Rightarrow> int \<Rightarrow> bool" where
  "capacityOk busType v =
     (if busType = ''49-seater'' \<and> v > 49 then False
      else if busType = ''60-seater'' \<and> v > 60 then False
      else True)"

definition check :: "bool \<Rightarrow> string \<Rightarrow> string list" where
  "check ok m = (if ok then [] else [m])"

definition validateQuote :: "date \<Rightarrow> quoteRequest \<Rightarrow> string list" where
  "validateQuote today q =
     check (q_pickupLocation q \<noteq> []) ''Pickup location is required''
   @ check (q_dropoffLocation q \<noteq> []) ''Drop-off location is required''
   @ check (q_numberOfDays q \<ge> 1) ''Number of days must be at least 1''
   @ check (q_busType q \<in> set [''49-seater'', ''60-seater''])
       ''Bus type must be either 49-seater or 60-seater''
   @ check (q_numberOfPassengers q \<ge> 1) ''Number of passengers must be at least 1''
   @ check (q_numberOfPassengers q \<le> 60) ''Number of passengers cannot exceed 60''
   @ check (capacityOk (q_busType q) (q_numberOfPassengers q))
       ''Number of passengers exceeds bus capacity''
   @ check (q_departureDate q \<ge> today) ''Departure date must be today or in the future''
   @ check (case q_specialRequests q of None \<Rightarrow> True | Some t \<Rightarrow> length t \<le> 500)
       ''Special requests cannot exceed 500 characters''
   @ check (q_status q \<in> set [''pending'', ''quoted'', ''approved'', ''rejected''])
       ''Status must be pending, quoted, approved, or rejected''
   @ check (case q_estimatedPrice q of None \<Rightarrow> True | Some p \<Rightarrow> p \<ge> 0)
       ''Estimated price cannot be negative''"

section \<open>The audit log\<close>

record snapshot =
  sn_status :: string
  sn_estimatedPrice :: "rat option"
  sn_adminNotes :: "string option"

record metadata =
  md_ipAddress :: string
  md_userAgent :: "string option"
  md_emailStatus :: "string option"
  md_emailMessageId :: "string option"
  md_comment :: string

text \<open>An entry of the quotation history; the empty object \<open>{}\<close> is \<open>None\<close>.\<close>

record historyEntry =
  h_quoteId :: objectId
  h_userId :: objectId
  h_action :: string
  h_previousState :: "snapshot option"
  h_newState :: "snapshot option"
  h_metadata :: metadata

section \<open>The document store and the environment\<close>

text \<open>
  A booking as the schema declares it. Paths that the save hook or the controllers test for
  presence are optional here, although the schema requires some of them: the validation
  below is what rejects their absence. The time stamps that the store maintains by itself
  (\<open>createdAt\<close>, \<open>updatedAt\<close>) are left out.
\<close>

record booking =
  b_id :: objectId
  b_quoteRequest :: "objectId option"
  b_user :: user
  b_pickupLocation :: string
  b_dropoffLocation :: string
  b_departureDate :: "date option"
  b_returnDate :: "date option"
  b_numberOfDays :: "int option"
  b_busType :: string
  b_numberOfPassengers :: int
  b_totalPrice :: "rat option"
  b_pricePerDay :: "rat option"
  b_status :: string
  b_paymentStatus :: string
  b_bookingType :: string
  b_paymentMethod :: "string option"
  b_paymentDate :: "date option"
  b_invoiceNumber :: "string option"
  b_specialRequests :: "string option"
  b_adminNotes :: "string option"
  b_cancellationReason :: "string option"
  b_cancelledAt :: "date option"
  b_cancelledBy :: "objectId option"

text \<open>
  The three collections, each in insertion order, and the counter that numbers new
  documents.
\<close>

record store =
  quotes :: "quoteRequest list"
  bookings :: "booking list"
  history :: "historyEntry list"
  nextId :: objectId

text \<open>
  What the quotation email is made from (the argument of \<open>sendQuotationEmail\<close>; the
  rendering of the HTML and text bodies from it is not modelled).
\<close>

record quoteDetails =
  qd_pickupLocation :: string
  qd_dropoffLocation :: string
  qd_departureDate :: date
  qd_numberOfDays :: int
  qd_busType :: string
  qd_numberOfPassengers :: int

record emailOptions =
  eo_to :: string
  eo_customerName :: string
  eo_quoteDetails :: quoteDetails
  eo_price :: rat
  eo_adminNotes :: string

text \<open>
  The environment of a request: the clock, and the mail transport, which either fails with
  an error message (\<open>Inl\<close>) or yields the id of the message it accepted (\<open>Inr\<close>).
\<close>

record env =
  now :: date
  sendMail :: "emailOptions \<Rightarrow> string + string"

definition today :: "env \<Rightarrow> date" where
  "today e = startOfDay (now e)"

text \<open>
  Modelled from the spec: the \<open>QuotationHistory\<close> model and its \<open>createEntry\<close> are
  missing from the sources. The spec's audit log has one operation, \<open>append(entry)\<close>, a pure
  insert with no update path; entries are kept in the order of their insertion.
\<close>

definition createEntry :: "historyEntry \<Rightarrow> store \<Rightarrow> store" where
  "createEntry e s = s\<lparr>history := history s @ [e]\<rparr>"

text \<open>\<open>QuoteRequest.findById\<close>.\<close>

definition findQuoteById :: "objectId \<Rightarrow> store \<Rightarrow> quoteRequest option" where
  "findQuoteById i s = List.find (\<lambda>q. q_id q = i) (quotes s)"

text \<open>
  \<open>quote.save()\<close>: the document is validated against its schema first; a valid document
  replaces the stored one with its id, an invalid one rejects with the validation error.
\<close>

definition saveQuote :: "env \<Rightarrow> quoteRequest \<Rightarrow> store \<Rightarrow> exn + store" where
  "saveQuote e q s =
     (case validateQuote (today e) q of
        [] \<Rightarrow> Inr (s\<lparr>quotes := map (\<lambda>d. if q_id d = q_id q then q else d) (quotes s)\<rparr>)
      | m # ms \<Rightarrow> Inl (ValidationError (m # ms)))"

section \<open>The notification gateway\<close>

record emailResult =
  er_success :: bool
  er_messageId :: string
  er_message :: string

text \<open>
  \<open>sendQuotationEmail\<close>: the message is handed to the transport; on success the result
  carries the message id, and an error of the transport is caught, logged and thrown again
  with a longer message. The parameter \<open>adminNotes\<close> defaults to the empty string.
\<close>

definition sendQuotationEmail :: "env \<Rightarrow> emailOptions \<Rightarrow> exn + emailResult" where
  "sendQuotationEmail e opts =
     (case sendMail e opts of
        Inr messageId \<Rightarrow>
          Inr \<lparr>er_success = True, er_messageId = messageId,
               er_message = ''Quotation email sent successfully''\<rparr>
      | Inl err \<Rightarrow> Inl (Error (''Failed to send quotation email: '' @ err)))"

section \<open>Submitting a quotation\<close>

record submitBody =
  sb_estimatedPrice :: "rat option"
  sb_adminNotes :: "string option"

record submitData =
  sd_quote :: quoteRequest
  sd_emailSent :: bool
  sd_emailMessageId :: "string option"
  sd_emailError :: "string option"

definition snapshotOf :: "quoteRequest \<Rightarrow> snapshot" where
  "snapshotOf q = \<lparr>sn_status = q_status q, sn_estimatedPrice = q_estimatedPrice q,
                    sn_adminNotes = q_adminNotes q\<rparr>"

text \<open>Step 4 of \<open>submitQuotation\<close>: the three assignments to the loaded quote.\<close>

definition applyQuotation :: "quoteRequest \<Rightarrow> rat \<Rightarrow> string option \<Rightarrow> quoteRequest" where
  "applyQuotation quote estimatedPrice adminNotes =
     quote\<lparr>q_status := ''quoted'',
           q_estimatedPrice := Some estimatedPrice,
           q_adminNotes := map_option trim
             (if truthy adminNotes then adminNotes else q_adminNotes quote)\<rparr>"

text \<open>Step 5: the audit entry of the price update.\<close>

definition priceUpdatedEntry :: "request \<Rightarrow> snapshot \<Rightarrow> quoteRequest \<Rightarrow> historyEntry" where
  "priceUpdatedEntry req previousState quote =
     \<lparr>h_quoteId = q_id quote, h_userId = req_user req, h_action = ''price_updated'',
      h_previousState = Some previousState,
      h_newState = Some (snapshotOf quote),
      h_metadata =
        \<lparr>md_ipAddress = req_ip req, md_userAgent = req_userAgent req,
         md_emailStatus = None, md_emailMessageId = None,
         md_comment = ''Admin submitted quotation''\<rparr>\<rparr>"

text \<open>Step 6: the argument of the email service.\<close>

definition quotationEmail :: "quoteRequest \<Rightarrow> rat \<Rightarrow> string option \<Rightarrow> emailOptions" where
  "quotationEmail quote estimatedPrice adminNotes =
     \<lparr>eo_to = email (q_user quote),
      eo_customerName = getFullName (q_user quote),
      eo_quoteDetails =
        \<lparr>qd_pickupLocation = q_pickupLocation quote,
         qd_dropoffLocation = q_dropoffLocation quote,
         qd_departureDate = q_departureDate quote,
         qd_numberOfDays = q_numberOfDays quote,
         qd_busType = q_busType quote,
         qd_numberOfPassengers = q_numberOfPassengers quote\<rparr>,
      eo_price = estimatedPrice,
      eo_adminNotes = (case adminNotes of None \<Rightarrow> [] | Some n \<Rightarrow> n)\<rparr>"

text \<open>Step 7: the audit entry of the email attempt, from the result of the service.\<close>

definition emailSentEntry :: "request \<Rightarrow> quoteRequest \<Rightarrow> emailResult \<Rightarrow> historyEntry" where
  "emailSentEntry req quote emailResult =
     \<lparr>h_quoteId = q_id quote, h_userId = req_user req, h_action = ''email_sent'',
      h_previousState = None, h_newState = None,
      h_metadata =
        \<lparr>md_ipAddress = req_ip req, md_userAgent = req_userAgent req,
         md_emailStatus = Some (if er_success emailResult then ''success'' else ''failed''),
         md_emailMessageId =
           (if er_messageId emailResult \<noteq> [] then Some (er_messageId emailResult) else None),
         md_comment =
           (if er_success emailResult then ''Quotation email sent successfully''
            else ''Email failed: '' @
              (if er_message emailResult \<noteq> [] then er_message emailResult
               else ''Unknown error''))\<rparr>\<rparr>"

text \<open>Step 8: the response, which depends on the \<open>success\<close> flag of the result.\<close>

definition submitResponse :: "quoteRequest \<Rightarrow> emailResult \<Rightarrow> submitData response" where
  "submitResponse quote emailResult =
     (if er_success emailResult then
        \<lparr>r_code = 200, r_success = True,
         r_message = ''Quotation submitted and email sent successfully'',
         r_data = Some \<lparr>sd_quote = quote, sd_emailSent = True,
                         sd_emailMessageId = Some (er_messageId emailResult),
                         sd_emailError = None\<rparr>,
         r_warning = None\<rparr>
      else
        \<lparr>r_code = 200, r_success = True,
         r_message = ''Quotation saved but email delivery failed. Please contact the customer directly.'',
         r_data = Some \<lparr>sd_quote = quote, sd_emailSent = False,
                         sd_emailMessageId = None,
                         sd_emailError = Some (er_message emailResult)\<rparr>,
         r_warning = Some ''Email was not delivered. Please follow up manually.''\<rparr>)"

text \<open>
  \<open>submitQuotation\<close>. The price of the body is a number or absent, and the test
  \<open>!estimatedPrice || estimatedPrice <= 0\<close> rejects the absent price, zero and the
  negative numbers. Every \<open>await\<close> of the handler stands inside its one \<open>try\<close> block, so
  an error thrown by the save or by the email service ends the handler in the \<open>catch\<close>
  branch, which answers 500; what was written to the store before stays written.
\<close>

definition serverError :: "string \<Rightarrow> 'a response" where
  "serverError m = reply 500 False m"

definition submitQuotation ::
  "env \<Rightarrow> request \<Rightarrow> objectId \<Rightarrow> submitBody \<Rightarrow> store \<Rightarrow> store \<times> submitData response" where
  "submitQuotation e req i body s =
     (case sb_estimatedPrice body of
        None \<Rightarrow> (s, reply 400 False ''Please provide a valid estimated price'')
      | Some estimatedPrice \<Rightarrow>
          if estimatedPrice = 0 \<or> estimatedPrice \<le> 0
          then (s, reply 400 False ''Please provide a valid estimated price'')
          else
            (case findQuoteById i s of
               None \<Rightarrow> (s, reply 404 False ''Quote request not found'')
             | Some quote0 \<Rightarrow>
                 let previousState = snapshotOf quote0;
                     quote = applyQuotation quote0 estimatedPrice (sb_adminNotes body)
                 in
                 (case saveQuote e quote s of
                    Inl err \<Rightarrow> (s, serverError ''Error submitting quotation'')
                  | Inr s1 \<Rightarrow>
                      let s2 = createEntry (priceUpdatedEntry req previousState quote) s1
                      in
                      (case sendQuotationEmail e
                              (quotationEmail quote estimatedPrice (sb_adminNotes body)) of
                         Inl err \<Rightarrow> (s2, serverError ''Error submitting quotation'')
                       | Inr emailResult \<Rightarrow>
                           (createEntry (emailSentEntry req quote emailResult) s2,
                            submitResponse quote emailResult)))))"

section \<open>Bookings\<close>

text \<open>The validators of the booking schema, in the order of its paths.\<close>

definition validateBooking :: "booking \<Rightarrow> string list" where
  "validateBooking b =
     check (b_quoteRequest b \<noteq> None) ''Quote request reference is required''
   @ check (b_pickupLocation b \<noteq> []) ''Pickup location is required''
   @ check (b_dropoffLocation b \<noteq> []) ''Drop-off location is required''
   @ check (b_departureDate b \<noteq> None) ''Departure date is required''
   @ (case b_numberOfDays b of
        None \<Rightarrow> [''Number of days is required'']
      | Some n \<Rightarrow> check (n \<ge> 1) ''Number of days must be at least 1'')
   @ check (b_busType b \<in> set [''49-seater'', ''60-seater''])
       ''Bus type must be either 49-seater or 60-seater''
   @ check (b_numberOfPassengers b \<ge> 1) ''Number of passengers must be at least 1''
   @ (case b_totalPrice b of
        None \<Rightarrow> [''Total price is required'']
      | Some p \<Rightarrow> check (p \<ge> 0) ''Total price cannot be negative'')
   @ (case b_pricePerDay b of
        None \<Rightarrow> [''Price per day is required'']
      | Some p \<Rightarrow> check (p \<ge> 0) ''Price per day cannot be negative'')
   @ check (b_status b \<in> set [''confirmed'', ''in-progress'', ''completed'', ''cancelled''])
       ''Status must be confirmed, in-progress, completed, or cancelled''
   @ check (b_paymentStatus b \<in> set [''pending'', ''partial'', ''paid'', ''refunded''])
       ''Payment status must be pending, partial, paid, or refunded''
   @ check (b_bookingType b \<in> set [''quotation'', ''confirmed'', ''paid''])
       ''Booking type must be quotation, confirmed, or paid''
   @ check (case b_paymentMethod b of
              None \<Rightarrow> True
            | Some m \<Rightarrow> m \<in> set [''cash'', ''bank-transfer'', ''credit-card'', ''gcash'', ''paymaya''])
       ''Payment method is not valid''
   @ check (case b_specialRequests b of None \<Rightarrow> True | Some t \<Rightarrow> length t \<le> 1000)
       ''Special requests cannot exceed 1000 characters''"

text \<open>
  The \<open>pre('save')\<close> hook of the booking schema: a missing return date is computed from
  the departure date and the number of days, when both are there (a number is truthy when it
  is not zero).
\<close>

definition preSave :: "booking \<Rightarrow> booking" where
  "preSave b =
     (case b_returnDate b of
        Some r \<Rightarrow> b
      | None \<Rightarrow>
          (case b_departureDate b of
             None \<Rightarrow> b
           | Some departureDate \<Rightarrow>
               (case b_numberOfDays b of
                  None \<Rightarrow> b
                | Some numberOfDays \<Rightarrow>
                    if numberOfDays \<noteq> 0
                    then b\<lparr>b_returnDate := Some (addDays departureDate numberOfDays)\<rparr>
                    else b)))"

text \<open>
  What every save of a booking runs before it writes: the validation, which comes first,
  and then the hook.
\<close>

definition beforeSave :: "booking \<Rightarrow> exn + booking" where
  "beforeSave b =
     (case validateBooking b of
        [] \<Rightarrow> Inr (preSave b)
      | m # ms \<Rightarrow> Inl (ValidationError (m # ms)))"

text \<open>\<open>booking.save()\<close> on a document that was loaded from the store.\<close>

definition saveBooking :: "booking \<Rightarrow> store \<Rightarrow> exn + booking \<times> store" where
  "saveBooking b s =
     (case beforeSave b of
        Inl err \<Rightarrow> Inl err
      | Inr b' \<Rightarrow>
          Inr (b', s\<lparr>bookings := map (\<lambda>d. if b_id d = b_id b' then b' else d) (bookings s)\<rparr>))"

text \<open>\<open>Booking.create\<close>: the new document gets a fresh id and is saved as the last one.\<close>

definition createBooking :: "booking \<Rightarrow> store \<Rightarrow> exn + booking \<times> store" where
  "createBooking doc s =
     (case beforeSave (doc\<lparr>b_id := nextId s\<rparr>) of
        Inl err \<Rightarrow> Inl err
      | Inr b' \<Rightarrow> Inr (b', s\<lparr>bookings := bookings s @ [b'], nextId := Suc (nextId s)\<rparr>))"

definition findBookingById :: "objectId \<Rightarrow> store \<Rightarrow> booking option" where
  "findBookingById i s = List.find (\<lambda>b. b_id b = i) (bookings s)"

text \<open>\<open>Booking.findOne({ quoteRequest: id })\<close>.\<close>

definition findBookingByQuote :: "objectId \<Rightarrow> store \<Rightarrow> booking option" where
  "findBookingByQuote i s = List.find (\<lambda>b. b_quoteRequest b = Some i) (bookings s)"

text \<open>The message of a caught error, or the default of the handler when it is empty.\<close>

definition messageOr :: "exn \<Rightarrow> string \<Rightarrow> string" where
  "messageOr err d = (if exnMessage err \<noteq> [] then exnMessage err else d)"

definition ok :: "nat \<Rightarrow> string \<Rightarrow> 'a \<Rightarrow> 'a response" where
  "ok c m d = \<lparr>r_code = c, r_success = True, r_message = m, r_data = Some d, r_warning = None\<rparr>"

subsection \<open>Creating a booking from a quotation\<close>

text \<open>
  The document that the handler passes to \<open>Booking.create\<close>: the trip of the quote, its
  price per day and in total, and the three initial states. The schema trims the strings it
  declares with \<open>trim\<close>; the id is assigned by \<open>createBooking\<close>.
\<close>

definition bookingFromQuote :: "quoteRequest \<Rightarrow> booking" where
  "bookingFromQuote quote =
     \<lparr>b_id = 0,
      b_quoteRequest = Some (q_id quote),
      b_user = q_user quote,
      b_pickupLocation = trim (q_pickupLocation quote),
      b_dropoffLocation = trim (q_dropoffLocation quote),
      b_departureDate = Some (q_departureDate quote),
      b_returnDate = None,
      b_numberOfDays = Some (q_numberOfDays quote),
      b_busType = q_busType quote,
      b_numberOfPassengers = q_numberOfPassengers quote,
      b_totalPrice =
        map_option (\<lambda>p. p * of_int (q_numberOfDays quote)) (q_estimatedPrice quote),
      b_pricePerDay = q_estimatedPrice quote,
      b_status = ''confirmed'',
      b_paymentStatus = ''pending'',
      b_bookingType = ''confirmed'',
      b_paymentMethod = None,
      b_paymentDate = None,
      b_invoiceNumber = None,
      b_specialRequests = map_option trim (q_specialRequests quote),
      b_adminNotes = map_option trim (q_adminNotes quote),
      b_cancellationReason = None,
      b_cancelledAt = None,
      b_cancelledBy = None\<rparr>"

definition createBookingFromQuotation :: "objectId \<Rightarrow> store \<Rightarrow> store \<times> booking response" where
  "createBookingFromQuotation quoteRequestId s =
     (case findQuoteById quoteRequestId s of
        None \<Rightarrow> (s, reply 404 False ''Quote request not found'')
      | Some quote \<Rightarrow>
          if q_status quote \<noteq> ''approved''
          then (s, reply 400 False ''Quote must be approved before creating booking'')
          else
            (case findBookingByQuote quoteRequestId s of
               Some existingBooking \<Rightarrow>
                 (s, reply 400 False ''Booking already exists for this quotation'')
             | None \<Rightarrow>
                 (case createBooking (bookingFromQuote quote) s of
                    Inl err \<Rightarrow> (s, reply 500 False (messageOr err ''Error creating booking''))
                  | Inr (booking, s') \<Rightarrow> (s', ok 201 ''Booking created successfully'' booking))))"

subsection \<open>Updating the status of a booking\<close>



subsection \<open>Cancelling a booking\<close>

text \<open>The instance method \<open>cancel\<close> of the booking model.\<close>

definition cancel :: "env \<Rightarrow> objectId \<Rightarrow> string option \<Rightarrow> booking \<Rightarrow> store \<Rightarrow> exn + booking \<times> store" where
  "cancel e userId reason b s =
     saveBooking
       (b\<lparr>b_status := ''cancelled'',
          b_cancellationReason := map_option trim reason,
          b_cancelledAt := Some (now e),
          b_cancelledBy := Some userId\<rparr>) s"

definition cancelBooking ::
  "env \<Rightarrow> request \<Rightarrow> objectId \<Rightarrow> string option \<Rightarrow> store \<Rightarrow> store \<times> booking response" where
  "cancelBooking e req i reason s =
     (case findBookingById i s of
        None \<Rightarrow> (s, reply 404 False ''Booking not found'')
      | Some booking0 \<Rightarrow>
          if b_status booking0 = ''cancelled''
          then (s, reply 400 False ''Booking is already cancelled'')
          else
            (case cancel e (req_user req) reason booking0 s of
               Inl err \<Rightarrow> (s, reply 500 False (messageOr err ''Error cancelling booking''))
             | Inr (booking, s') \<Rightarrow> (s', ok 200 ''Booking cancelled successfully'' booking)))"

subsection \<open>Calendar events\<close>

record resource =
  rs_bookingType :: string
  rs_status :: string
  rs_paymentStatus :: string
  rs_booking :: booking

record calendarEvent =
  ev_id :: objectId
  ev_title :: string
  ev_start :: date
  ev_end :: date
  ev_resource :: resource

text \<open>
  \<open>getByDateRange\<close>: the bookings whose departure date lies between the bounds, both
  included, in ascending order of that date. Each match is paired with its departure date;
  a booking without one matches no range.
\<close>

definition inRange :: "date \<Rightarrow> date \<Rightarrow> booking \<Rightarrow> (date \<times> booking) option" where
  "inRange startDate endDate b =
     (case b_departureDate b of
        None \<Rightarrow> None
      | Some d \<Rightarrow> if startDate \<le> d \<and> d \<le> endDate then Some (d, b) else None)"

definition getByDateRange :: "date \<Rightarrow> date \<Rightarrow> store \<Rightarrow> (date \<times> booking) list" where
  "getByDateRange startDate endDate s =
     sort_key fst (List.map_filter (inRange startDate endDate) (bookings s))"

definition toEvent :: "date \<times> booking \<Rightarrow> calendarEvent" where
  "toEvent m =
     (case m of (departureDate, b) \<Rightarrow>
        \<lparr>ev_id = b_id b,
         ev_title = firstName (b_user b) @ '' '' @ lastName (b_user b) @ '' - '' @ b_busType b,
         ev_start = departureDate,
         ev_end = (case b_returnDate b of Some r \<Rightarrow> r | None \<Rightarrow> departureDate),
         ev_resource =
           \<lparr>rs_bookingType = b_bookingType b, rs_status = b_status b,
            rs_paymentStatus = b_paymentStatus b, rs_booking = b\<rparr>\<rparr>)"

text \<open>The static method \<open>getCalendarEvents\<close> of the booking model.\<close>

definition calendarEventsOf :: "date \<Rightarrow> date \<Rightarrow> store \<Rightarrow> calendarEvent list" where
  "calendarEventsOf startDate endDate s = map toEvent (getByDateRange startDate endDate s)"

text \<open>
  The handler \<open>getCalendarEvents\<close>. A query parameter is the date it parses to; \<open>None\<close>
  is a parameter that is absent or empty.
\<close>

definition getCalendarEvents :: "date option \<Rightarrow> date option \<Rightarrow> store \<Rightarrow> calendarEvent list response" where
  "getCalendarEvents start end' s =
     (case start of
        None \<Rightarrow> reply 400 False ''Start and end dates are required''
      | Some startDate \<Rightarrow>
          (case end' of
             None \<Rightarrow> reply 400 False ''Start and end dates are required''
           | Some endDate \<Rightarrow> ok 200 [] (calendarEventsOf startDate endDate s)))"

section \<open>Example data\<close>

text \<open>
  A customer, her quote request for three days from Manila to Baguio, departing on day 20,
  and requests made on day 10: an administrator pricing the quote at 15000, once with a mail
  transport that refuses the connection and once with one that accepts the message.
\<close>

definition demoUser :: user where
  "demoUser = \<lparr>user_id = 7, firstName = ''Ana'', lastName = ''Cruz'', email = ''ana@example.com''\<rparr>"

definition demoQuote :: "string \<Rightarrow> quoteRequest" where
  "demoQuote st = \<lparr>q_id = 1, q_user = demoUser, q_pickupLocation = ''Manila'',
     q_dropoffLocation = ''Baguio'', q_numberOfDays = 3, q_busType = ''49-seater'',
     q_numberOfPassengers = 45, q_departureDate = 20 * msPerDay, q_specialRequests = None,
     q_status = st, q_estimatedPrice = None, q_adminNotes = None\<rparr>"

definition demoStore :: "string \<Rightarrow> store" where
  "demoStore st = \<lparr>quotes = [demoQuote st], bookings = [], history = [], nextId = 2\<rparr>"

definition mailDown :: env where
  "mailDown = \<lparr>now = 10 * msPerDay + 5, sendMail = (\<lambda>m. Inl ''connect ECONNREFUSED'')\<rparr>"

definition mailUp :: env where
  "mailUp = \<lparr>now = 10 * msPerDay + 5, sendMail = (\<lambda>m. Inr ''<msg-1@searchgear>'')\<rparr>"

definition admin :: request where
  "admin = \<lparr>req_user = 9, req_ip = ''127.0.0.1'', req_userAgent = None\<rparr>"

definition priced :: submitBody where
  "priced = \<lparr>sb_estimatedPrice = Some 15000, sb_adminNotes = Some ''AC included''\<rparr>"

text \<open>
  The booking made from that quote, a store that holds it, and a store in which the quote
  is approved at 15000 a day and not yet booked.
\<close>

definition demoBooking :: "string \<Rightarrow> booking" where
  "demoBooking st =
     \<lparr>b_id = 5, b_quoteRequest = Some 1, b_user = demoUser,
      b_pickupLocation = ''Manila'', b_dropoffLocation = ''Baguio'',
      b_departureDate = Some (20 * msPerDay), b_returnDate = Some (23 * msPerDay),
      b_numberOfDays = Some 3, b_busType = ''49-seater'', b_numberOfPassengers = 45,
      b_totalPrice = Some 45000, b_pricePerDay = Some 15000,
      b_status = st, b_paymentStatus = ''pending'', b_bookingType = ''confirmed'',
      b_paymentMethod = None, b_paymentDate = None, b_invoiceNumber = None,
      b_specialRequests = None, b_adminNotes = Some ''AC included'',
      b_cancellationReason = None, b_cancelledAt = None, b_cancelledBy = None\<rparr>"

definition bookedStore :: "string \<Rightarrow> store" where
  "bookedStore st = \<lparr>quotes = [], bookings = [demoBooking st], history = [], nextId = 6\<rparr>"

definition approvedStore :: store where
  "approvedStore =
     \<lparr>quotes = [(demoQuote ''approved'')\<lparr>q_estimatedPrice := Some 15000\<rparr>],
      bookings = [], history = [], nextId = 2\<rparr>"

section \<open>Properties of the quote lifecycle\<close>

subsection \<open>Finding and replacing a stored quote\<close>

lemma find_replace_quote:
  "List.find (\<lambda>q. q_id q = i) qs = Some q0 \<Longrightarrow> q_id q' = i \<Longrightarrow>
   List.find (\<lambda>q. q_id q = i) (map (\<lambda>d. if q_id d = q_id q' then q' else d) qs) = Some q'"
  by (induction qs) (auto split: if_splits)

lemma findQuoteById_id: "findQuoteById i s = Some q \<Longrightarrow> q_id q = i"
  by (auto simp: findQuoteById_def find_Some_iff)

lemma applyQuotation_id [simp]: "q_id (applyQuotation q p n) = q_id q"
  by (simp add: applyQuotation_def)

lemma saveQuote_quotes:
  "saveQuote e q s = Inr s1 \<Longrightarrow>
   quotes s1 = map (\<lambda>d. if q_id d = q_id q then q else d) (quotes s) \<and> history s1 = history s
   \<and> bookings s1 = bookings s"
  by (auto simp: saveQuote_def split: list.splits)

lemma saveQuote_find:
  assumes "saveQuote e q s = Inr s1" "findQuoteById (q_id q) s = Some q0"
  shows "findQuoteById (q_id q) s1 = Some q"
  using assms saveQuote_quotes[OF assms(1)] find_replace_quote[of "q_id q" "quotes s" q0 q]
  by (simp add: findQuoteById_def)

lemma saveQuote_valid:
  "validateQuote (today e) q = [] \<Longrightarrow>
   saveQuote e q s = Inr (s\<lparr>quotes := map (\<lambda>d. if q_id d = q_id q then q else d) (quotes s)\<rparr>)"
  by (simp add: saveQuote_def)

text \<open>The validators read neither the notes nor the values that step 4 overwrites.\<close>

lemma validateQuote_applyQuotation:
  "validateQuote t (applyQuotation q0 p n) =
   validateQuote t (q0\<lparr>q_status := ''quoted'', q_estimatedPrice := Some p\<rparr>)"
  by (simp add: validateQuote_def applyQuotation_def)

subsection \<open>The handler after a successful save\<close>

text \<open>
  Once the price is accepted, the quote found and the save done, the run of the handler is
  decided by the mail transport alone.
\<close>

lemma submitQuotation_saved:
  assumes "sb_estimatedPrice body = Some p" "0 < p"
    and "findQuoteById i s = Some q0"
    and "saveQuote e (applyQuotation q0 p (sb_adminNotes body)) s = Inr s1"
  shows "submitQuotation e req i body s =
     (let quote = applyQuotation q0 p (sb_adminNotes body);
          s2 = createEntry (priceUpdatedEntry req (snapshotOf q0) quote) s1
      in case sendMail e (quotationEmail quote p (sb_adminNotes body)) of
           Inl err \<Rightarrow> (s2, serverError ''Error submitting quotation'')
         | Inr mid \<Rightarrow>
             (let r = \<lparr>er_success = True, er_messageId = mid,
                       er_message = ''Quotation email sent successfully''\<rparr>
              in (createEntry (emailSentEntry req quote r) s2, submitResponse quote r)))"
  using assms by (simp add: submitQuotation_def sendQuotationEmail_def Let_def split: sum.splits)

text \<open>Facts about the example data that the instances below share.\<close>

lemma demo_found: "findQuoteById 1 (demoStore st) = Some (demoQuote st)"
  by (simp add: findQuoteById_def demoStore_def demoQuote_def)

lemma demo_price: "sb_estimatedPrice priced = Some 15000"
  by (simp add: priced_def)

lemma demo_valid:
  "validateQuote (startOfDay (10 * msPerDay + 5))
     ((demoQuote st)\<lparr>q_status := ''quoted'', q_estimatedPrice := Some 15000\<rparr>) = []"
  by (simp add: validateQuote_def demoQuote_def check_def capacityOk_def
      startOfDay_def msPerDay_def)

lemma demo_saved:
  assumes "now e = 10 * msPerDay + 5"
  shows "saveQuote e (applyQuotation (demoQuote st) 15000 (sb_adminNotes priced)) (demoStore st)
      = Inr ((demoStore st)\<lparr>quotes := [applyQuotation (demoQuote st) 15000 (Some ''AC included'')]\<rparr>)"
proof -
  have "validateQuote (today e) (applyQuotation (demoQuote st) 15000 (sb_adminNotes priced)) = []"
    using demo_valid[of st] assms by (simp add: validateQuote_applyQuotation today_def)
  then show ?thesis
    by (simp add: saveQuote_valid) (simp add: demoStore_def demoQuote_def priced_def)
qed

subsection \<open>A failing email and the answer of the handler\<close>

text \<open>
  C1. The spec has a failure of \<open>sendQuotationEmail\<close> degrade to \<open>emailSent = false\<close> in a
  successful answer. The handler does not contain the failure: the email service throws
  what the transport threw, nothing around the call catches it, and the \<open>catch\<close> branch of
  the handler answers 500 with \<open>success = false\<close> and no data. So on every run that reaches
  the email step with a failing transport, the operation is reported as failed.
\<close>

theorem submitQuotation_email_failure_aborts:
  assumes "sb_estimatedPrice body = Some p" "0 < p"
    and "findQuoteById i s = Some q0"
    and "saveQuote e (applyQuotation q0 p (sb_adminNotes body)) s = Inr s1"
    and "sendMail e (quotationEmail (applyQuotation q0 p (sb_adminNotes body)) p (sb_adminNotes body)) = Inl err"
  shows "snd (submitQuotation e req i body s) = serverError ''Error submitting quotation'' \<and>
         r_code (snd (submitQuotation e req i body s)) = 500 \<and>
         \<not> r_success (snd (submitQuotation e req i body s)) \<and>
         r_data (snd (submitQuotation e req i body s)) = None"
  unfolding submitQuotation_saved[OF assms(1-4)] using assms(5)
  by (simp add: Let_def serverError_def reply_def)

theorem submitQuotation_email_failure_aborts_witness:
  "snd (submitQuotation mailDown admin 1 priced (demoStore ''pending'')) =
     serverError ''Error submitting quotation'' \<and>
   r_code (snd (submitQuotation mailDown admin 1 priced (demoStore ''pending''))) = 500 \<and>
   \<not> r_success (snd (submitQuotation mailDown admin 1 priced (demoStore ''pending''))) \<and>
   r_data (snd (submitQuotation mailDown admin 1 priced (demoStore ''pending''))) = None"
proof -
  have pos: "(0::rat) < 15000" by simp
  have sv: "saveQuote mailDown (applyQuotation (demoQuote ''pending'') 15000 (sb_adminNotes priced))
      (demoStore ''pending'')
      = Inr ((demoStore ''pending'')\<lparr>quotes := [applyQuotation (demoQuote ''pending'') 15000 (Some ''AC included'')]\<rparr>)"
    by (rule demo_saved) (simp add: mailDown_def)
  have m: "sendMail mailDown (quotationEmail (applyQuotation (demoQuote ''pending'') 15000 (sb_adminNotes priced))
              15000 (sb_adminNotes priced)) = Inl ''connect ECONNREFUSED''"
    by (simp add: mailDown_def)
  show ?thesis by (rule submitQuotation_email_failure_aborts[OF demo_price pos demo_found sv m])
qed

subsection \<open>The audit entries of one call\<close>

text \<open>
  C2. A call that passes the price check, finds the quote and saves it appends the
  \<open>price_updated\<close> entry and then, when the transport accepts the message, the
  \<open>email_sent\<close> entry. When the transport fails, the thrown error skips the second entry:
  exactly one entry is appended, not the two that the spec asks for in both outcomes.
\<close>

theorem submitQuotation_audit_entries:
  assumes "sb_estimatedPrice body = Some p" "0 < p"
    and "findQuoteById i s = Some q0"
    and "saveQuote e (applyQuotation q0 p (sb_adminNotes body)) s = Inr s1"
  shows "case sendMail e (quotationEmail (applyQuotation q0 p (sb_adminNotes body)) p (sb_adminNotes body)) of
           Inr messageId \<Rightarrow>
             (\<exists>e1 e2. history (fst (submitQuotation e req i body s)) = history s @ [e1, e2] \<and>
                 h_action e1 = ''price_updated'' \<and> h_action e2 = ''email_sent'')
         | Inl err \<Rightarrow>
             (\<exists>e1. history (fst (submitQuotation e req i body s)) = history s @ [e1] \<and>
                 h_action e1 = ''price_updated'')"
  unfolding submitQuotation_saved[OF assms(1-4)] using saveQuote_quotes[OF assms(4)]
  by (simp add: Let_def createEntry_def priceUpdatedEntry_def emailSentEntry_def split: sum.splits)

theorem submitQuotation_audit_entries_witness:
  "(\<exists>e1. history (fst (submitQuotation mailDown admin 1 priced (demoStore ''pending''))) =
            history (demoStore ''pending'') @ [e1] \<and> h_action e1 = ''price_updated'') \<and>
   (\<exists>e1 e2. history (fst (submitQuotation mailUp admin 1 priced (demoStore ''pending''))) =
            history (demoStore ''pending'') @ [e1, e2] \<and>
            h_action e1 = ''price_updated'' \<and> h_action e2 = ''email_sent'')"
proof -
  have pos: "(0::rat) < 15000" by simp
  have sv: "saveQuote mailDown (applyQuotation (demoQuote ''pending'') 15000 (sb_adminNotes priced))
      (demoStore ''pending'')
      = Inr ((demoStore ''pending'')\<lparr>quotes := [applyQuotation (demoQuote ''pending'') 15000 (Some ''AC included'')]\<rparr>)"
    by (rule demo_saved) (simp add: mailDown_def)
  have sv': "saveQuote mailUp (applyQuotation (demoQuote ''pending'') 15000 (sb_adminNotes priced))
      (demoStore ''pending'')
      = Inr ((demoStore ''pending'')\<lparr>quotes := [applyQuotation (demoQuote ''pending'') 15000 (Some ''AC included'')]\<rparr>)"
    by (rule demo_saved) (simp add: mailUp_def)
  show ?thesis
    using submitQuotation_audit_entries[OF demo_price pos demo_found sv, of admin]
          submitQuotation_audit_entries[OF demo_price pos demo_found sv', of admin]
    by (simp add: mailDown_def mailUp_def)
qed

subsection \<open>The saved quote is not rolled back\<close>

text \<open>
  C3. When the call passes the price check, finds the quote and the save persists the
  update, the quotes of the final store are the quotes that the save wrote, whatever the mail
  transport does afterwards: the stored quote has status \<open>quoted\<close> and the new price, also
  when the email fails and the handler answers 500.
\<close>

theorem submitQuotation_persisted_quote_retained:
  assumes "sb_estimatedPrice body = Some p" "0 < p"
    and "findQuoteById i s = Some q0"
    and "saveQuote e (applyQuotation q0 p (sb_adminNotes body)) s = Inr s1"
  shows "quotes (fst (submitQuotation e req i body s)) = quotes s1 \<and>
         (\<exists>q. findQuoteById i (fst (submitQuotation e req i body s)) = Some q \<and>
              q_status q = ''quoted'' \<and> q_estimatedPrice q = Some p)"
proof -
  let ?q = "applyQuotation q0 p (sb_adminNotes body)"
  have i: "q_id ?q = i" using assms(3) by (simp add: findQuoteById_id)
  have qs: "quotes (fst (submitQuotation e req i body s)) = quotes s1"
    unfolding submitQuotation_saved[OF assms]
    by (simp add: Let_def createEntry_def split: sum.splits)
  have "findQuoteById i s1 = Some ?q"
    using saveQuote_find[OF assms(4)] assms(3) i by simp
  then have "findQuoteById i (fst (submitQuotation e req i body s)) = Some ?q"
    using qs by (simp add: findQuoteById_def)
  moreover have "q_status ?q = ''quoted''" "q_estimatedPrice ?q = Some p"
    by (simp_all add: applyQuotation_def)
  ultimately show ?thesis using qs by blast
qed

theorem submitQuotation_persisted_quote_retained_witness:
  "quotes (fst (submitQuotation mailDown admin 1 priced (demoStore ''pending''))) =
     [applyQuotation (demoQuote ''pending'') 15000 (Some ''AC included'')] \<and>
   r_code (snd (submitQuotation mailDown admin 1 priced (demoStore ''pending''))) = 500 \<and>
   (\<exists>q. findQuoteById 1 (fst (submitQuotation mailDown admin 1 priced (demoStore ''pending''))) = Some q \<and>
        q_status q = ''quoted'' \<and> q_estimatedPrice q = Some 15000)"
proof -
  have pos: "(0::rat) < 15000" by simp
  have sv: "saveQuote mailDown (applyQuotation (demoQuote ''pending'') 15000 (sb_adminNotes priced))
      (demoStore ''pending'')
      = Inr ((demoStore ''pending'')\<lparr>quotes := [applyQuotation (demoQuote ''pending'') 15000 (Some ''AC included'')]\<rparr>)"
    by (rule demo_saved) (simp add: mailDown_def)
  have r: "r_code (snd (submitQuotation mailDown admin 1 priced (demoStore ''pending''))) = 500"
    unfolding submitQuotation_saved[OF demo_price pos demo_found sv]
    by (simp add: mailDown_def serverError_def reply_def Let_def)
  show ?thesis
    using submitQuotation_persisted_quote_retained[OF demo_price pos demo_found sv, of admin] r
    by simp
qed

subsection \<open>Rejected prices\<close>

text \<open>
  C4. A call whose \<open>estimatedPrice\<close> is absent, zero or negative is answered 400 with the
  message \<open>Please provide a valid estimated price\<close>, and the store it returns is the store
  it was given: no quote is changed and no audit entry is appended.
\<close>

theorem submitQuotation_rejects_invalid_price:
  assumes "sb_estimatedPrice body = None \<or> (\<exists>p. sb_estimatedPrice body = Some p \<and> p \<le> 0)"
  shows "submitQuotation e req i body s =
           (s, reply 400 False ''Please provide a valid estimated price'')"
  using assms by (auto simp: submitQuotation_def)

theorem submitQuotation_rejects_invalid_price_witness:
  "submitQuotation mailUp admin 1 \<lparr>sb_estimatedPrice = Some 0, sb_adminNotes = Some ''x''\<rparr>
       (demoStore ''pending'')
     = (demoStore ''pending'', reply 400 False ''Please provide a valid estimated price'') \<and>
   submitQuotation mailUp admin 1 \<lparr>sb_estimatedPrice = Some (- 5), sb_adminNotes = None\<rparr>
       (demoStore ''pending'')
     = (demoStore ''pending'', reply 400 False ''Please provide a valid estimated price'') \<and>
   submitQuotation mailUp admin 1 \<lparr>sb_estimatedPrice = None, sb_adminNotes = None\<rparr>
       (demoStore ''pending'')
     = (demoStore ''pending'', reply 400 False ''Please provide a valid estimated price'')"
  using submitQuotation_rejects_invalid_price
          [of "\<lparr>sb_estimatedPrice = Some 0, sb_adminNotes = Some ''x''\<rparr>" mailUp admin 1 "demoStore ''pending''"]
        submitQuotation_rejects_invalid_price
          [of "\<lparr>sb_estimatedPrice = Some (- 5), sb_adminNotes = None\<rparr>" mailUp admin 1 "demoStore ''pending''"]
        submitQuotation_rejects_invalid_price
          [of "\<lparr>sb_estimatedPrice = None, sb_adminNotes = None\<rparr>" mailUp admin 1 "demoStore ''pending''"]
  by simp

subsection \<open>No condition on the current status\<close>

text \<open>
  C9. The handler never reads the current status of the quote except to record it in the
  audit entry. For every stored quote, whatever its status, and every positive price, the
  stored status becomes \<open>quoted\<close>, and the audit entry records the move from the old status
  to \<open>quoted\<close>; this includes quotes that were \<open>approved\<close> or \<open>rejected\<close>. The validity
  assumed of the document is that of the document after the status and the price have been
  overwritten, so it does not depend on either.
\<close>

theorem submitQuotation_any_status_to_quoted:
  assumes "findQuoteById i s = Some q0"
    and "sb_estimatedPrice body = Some p" "0 < p"
    and "validateQuote (today e) (q0\<lparr>q_status := ''quoted'', q_estimatedPrice := Some p\<rparr>) = []"
  shows "\<exists>q entry rest.
           findQuoteById i (fst (submitQuotation e req i body s)) = Some q \<and>
           q_status q = ''quoted'' \<and>
           history (fst (submitQuotation e req i body s)) = history s @ entry # rest \<and>
           map_option sn_status (h_previousState entry) = Some (q_status q0) \<and>
           map_option sn_status (h_newState entry) = Some ''quoted''"
proof -
  let ?q = "applyQuotation q0 p (sb_adminNotes body)"
  let ?s1 = "s\<lparr>quotes := map (\<lambda>d. if q_id d = q_id ?q then ?q else d) (quotes s)\<rparr>"
  have sv: "saveQuote e ?q s = Inr ?s1"
    using assms(4) by (simp add: saveQuote_valid validateQuote_applyQuotation)
  have i: "q_id ?q = i" using assms(1) by (simp add: findQuoteById_id)
  note eq = submitQuotation_saved[OF assms(2,3,1) sv, of req]
  have "findQuoteById i ?s1 = Some ?q"
    using saveQuote_find[OF sv] assms(1) i by simp
  then have f: "findQuoteById i (fst (submitQuotation e req i body s)) = Some ?q"
    unfolding eq by (simp add: findQuoteById_def Let_def createEntry_def split: sum.splits)
  have h: "\<exists>rest. history (fst (submitQuotation e req i body s)) =
             history s @ priceUpdatedEntry req (snapshotOf q0) ?q # rest"
    unfolding eq by (simp add: Let_def createEntry_def split: sum.splits)
  have "q_status ?q = ''quoted''" by (simp add: applyQuotation_def)
  moreover have
    "map_option sn_status (h_previousState (priceUpdatedEntry req (snapshotOf q0) ?q)) = Some (q_status q0)"
    "map_option sn_status (h_newState (priceUpdatedEntry req (snapshotOf q0) ?q)) = Some ''quoted''"
    by (simp_all add: priceUpdatedEntry_def snapshotOf_def applyQuotation_def)
  ultimately show ?thesis using f h by blast
qed

theorem submitQuotation_any_status_to_quoted_witness:
  "\<exists>q entry rest.
     findQuoteById 1 (fst (submitQuotation mailUp admin 1 priced (demoStore ''approved''))) = Some q \<and>
     q_status q = ''quoted'' \<and>
     history (fst (submitQuotation mailUp admin 1 priced (demoStore ''approved''))) =
       history (demoStore ''approved'') @ entry # rest \<and>
     map_option sn_status (h_previousState entry) = Some ''approved'' \<and>
     map_option sn_status (h_newState entry) = Some ''quoted''"
proof -
  have pos: "(0::rat) < 15000" by simp
  have v: "validateQuote (today mailUp)
      ((demoQuote ''approved'')\<lparr>q_status := ''quoted'', q_estimatedPrice := Some 15000\<rparr>) = []"
    using demo_valid[of "''approved''"] by (simp add: today_def mailUp_def)
  have st: "q_status (demoQuote ''approved'') = ''approved''" by (simp add: demoQuote_def)
  show ?thesis
    using submitQuotation_any_status_to_quoted[OF demo_found demo_price pos v, of admin] st
    by simp
qed

section \<open>Properties of the booking lifecycle\<close>

subsection \<open>Validation, the save hook and the store\<close>

lemma check_Nil [simp]: "check c m = [] \<longleftrightarrow> c"
  by (simp add: check_def)

lemma validateBooking_Nil:
  "validateBooking b = [] \<longleftrightarrow>
     b_quoteRequest b \<noteq> None \<and> b_pickupLocation b \<noteq> [] \<and> b_dropoffLocation b \<noteq> [] \<and>
     b_departureDate b \<noteq> None \<and> (\<exists>n. b_numberOfDays b = Some n \<and> 1 \<le> n) \<and>
     b_busType b \<in> set [''49-seater'', ''60-seater''] \<and> 1 \<le> b_numberOfPassengers b \<and>
     (\<exists>p. b_totalPrice b = Some p \<and> 0 \<le> p) \<and> (\<exists>p. b_pricePerDay b = Some p \<and> 0 \<le> p) \<and>
     b_status b \<in> set [''confirmed'', ''in-progress'', ''completed'', ''cancelled''] \<and>
     b_paymentStatus b \<in> set [''pending'', ''partial'', ''paid'', ''refunded''] \<and>
     b_bookingType b \<in> set [''quotation'', ''confirmed'', ''paid''] \<and>
     (case b_paymentMethod b of None \<Rightarrow> True
      | Some m \<Rightarrow> m \<in> set [''cash'', ''bank-transfer'', ''credit-card'', ''gcash'', ''paymaya'']) \<and>
     (case b_specialRequests b of None \<Rightarrow> True | Some t \<Rightarrow> length t \<le> 1000)"
  unfolding validateBooking_def append_is_Nil_conv check_Nil
  by (cases "b_numberOfDays b"; cases "b_totalPrice b"; cases "b_pricePerDay b") simp_all

lemma preSave_frame:
  "preSave b = b\<lparr>b_returnDate := b_returnDate (preSave b)\<rparr>"
  by (simp add: preSave_def split: option.splits)

lemma preSave_simps [simp]:
  "b_id (preSave b) = b_id b" "b_quoteRequest (preSave b) = b_quoteRequest b"
  "b_status (preSave b) = b_status b" "b_adminNotes (preSave b) = b_adminNotes b"
  "b_cancellationReason (preSave b) = b_cancellationReason b"
  "b_cancelledAt (preSave b) = b_cancelledAt b" "b_cancelledBy (preSave b) = b_cancelledBy b"
  by (simp_all add: preSave_def split: option.splits)


lemma beforeSave_Inr: "beforeSave b = Inr b' \<longleftrightarrow> validateBooking b = [] \<and> b' = preSave b"
  by (auto simp: beforeSave_def split: list.splits)

text \<open>Every booking that passes the validation leaves the hook with a return date.\<close>

lemma beforeSave_returnDate:
  assumes "beforeSave b = Inr b'"
  shows "b_returnDate b' \<noteq> None"
proof -
  from assms have v: "validateBooking b = []" and b': "b' = preSave b"
    by (simp_all add: beforeSave_Inr)
  from v obtain n d where "b_numberOfDays b = Some n" "1 \<le> n" "b_departureDate b = Some d"
    by (auto simp: validateBooking_Nil)
  then show ?thesis unfolding b' by (simp add: preSave_def split: option.splits)
qed

lemma find_replace_booking:
  "List.find (\<lambda>b. b_id b = i) bs = Some b0 \<Longrightarrow> b_id b' = i \<Longrightarrow>
   List.find (\<lambda>b. b_id b = i) (map (\<lambda>d. if b_id d = b_id b' then b' else d) bs) = Some b'"
  by (induction bs) (auto split: if_splits)

lemma findBookingById_id: "findBookingById i s = Some b \<Longrightarrow> b_id b = i"
  by (auto simp: findBookingById_def find_Some_iff)

lemma saveBooking_Inr:
  "saveBooking b s = Inr (b', s') \<longleftrightarrow>
     validateBooking b = [] \<and> b' = preSave b \<and>
     s' = s\<lparr>bookings := map (\<lambda>d. if b_id d = b_id b then preSave b else d) (bookings s)\<rparr>"
  by (auto simp: saveBooking_def beforeSave_def split: list.splits)

lemma saveBooking_Inl:
  "(\<exists>err. saveBooking b s = Inl err) \<longleftrightarrow> validateBooking b \<noteq> []"
  by (auto simp: saveBooking_def beforeSave_def split: list.splits)

lemma saveBooking_find:
  assumes "saveBooking b s = Inr (b', s')" "findBookingById (b_id b) s = Some b0"
  shows "findBookingById (b_id b) s' = Some b'"
  using assms find_replace_booking[of "b_id b" "bookings s" b0 "preSave b"]
  by (simp add: saveBooking_Inr findBookingById_def)

lemma createBooking_Inr:
  "createBooking doc s = Inr (b', s') \<longleftrightarrow>
     validateBooking (doc\<lparr>b_id := nextId s\<rparr>) = [] \<and> b' = preSave (doc\<lparr>b_id := nextId s\<rparr>) \<and>
     s' = s\<lparr>bookings := bookings s @ [b'], nextId := Suc (nextId s)\<rparr>"
  by (auto simp: createBooking_def beforeSave_def split: list.splits)

subsection \<open>The return date of a saved booking\<close>



subsection \<open>One booking for each quote\<close>

lemma find_None_filter: "List.find P xs = None \<Longrightarrow> filter P xs = []"
  by (induction xs) (auto split: if_splits)

lemma find_append_last: "List.find P xs = None \<Longrightarrow> P x \<Longrightarrow> List.find P (xs @ [x]) = Some x"
  by (induction xs) (auto split: if_splits)

lemma createBookingFromQuotation_only_when:
  assumes "bookings (fst (createBookingFromQuotation i s)) \<noteq> bookings s"
  shows "(\<exists>q. findQuoteById i s = Some q \<and> q_status q = ''approved'') \<and>
         findBookingByQuote i s = None"
  using assms
  by (auto simp: createBookingFromQuotation_def split: option.splits if_splits sum.splits)

lemma created_201:
  assumes "r_code (snd (createBookingFromQuotation i s)) = 201"
  obtains q b' s' where "findQuoteById i s = Some q" "q_status q = ''approved''"
    "findBookingByQuote i s = None" "createBooking (bookingFromQuote q) s = Inr (b', s')"
    "createBookingFromQuotation i s = (s', ok 201 ''Booking created successfully'' b')"
proof (cases "findQuoteById i s")
  case None
  with assms show ?thesis by (simp add: createBookingFromQuotation_def reply_def)
next
  case (Some q)
  show ?thesis
  proof (cases "q_status q = ''approved''")
    case False
    with Some assms show ?thesis by (simp add: createBookingFromQuotation_def reply_def)
  next
    case True
    show ?thesis
    proof (cases "findBookingByQuote i s")
      case (Some existing)
      with \<open>findQuoteById i s = Some q\<close> True assms show ?thesis
        by (simp add: createBookingFromQuotation_def reply_def)
    next
      case None
      show ?thesis
      proof (cases "createBooking (bookingFromQuote q) s")
        case (Inl err)
        with \<open>findQuoteById i s = Some q\<close> True None assms show ?thesis
          by (simp add: createBookingFromQuotation_def reply_def)
      next
        case (Inr p)
        obtain b' s' where p: "p = (b', s')" by (cases p)
        show ?thesis
          using that[of q b' s'] \<open>findQuoteById i s = Some q\<close> True None Inr p
          by (simp add: createBookingFromQuotation_def)
      qed
    qed
  qed
qed

lemma createBookingFromQuotation_twice:
  assumes c: "r_code (snd (createBookingFromQuotation i s)) = 201"
  shows "createBookingFromQuotation i (fst (createBookingFromQuotation i s)) =
           (fst (createBookingFromQuotation i s),
            reply 400 False ''Booking already exists for this quotation'') \<and>
         length (filter (\<lambda>b. b_quoteRequest b = Some i)
                   (bookings (fst (createBookingFromQuotation i s)))) = 1"
proof -
  from c obtain q b' s' where q: "findQuoteById i s = Some q" "q_status q = ''approved''"
    and n: "findBookingByQuote i s = None"
    and cr: "createBooking (bookingFromQuote q) s = Inr (b', s')"
    and r: "createBookingFromQuotation i s = (s', ok 201 ''Booking created successfully'' b')"
    by (rule created_201)
  have s': "bookings s' = bookings s @ [b']" "quotes s' = quotes s"
    using cr by (simp_all add: createBooking_Inr)
  have b': "b_quoteRequest b' = Some i"
    using cr q(1) by (simp add: createBooking_Inr bookingFromQuote_def findQuoteById_id)
  have f: "findBookingByQuote i s' = Some b'"
    using n s' b' by (simp add: findBookingByQuote_def find_append_last)
  have "findQuoteById i s' = Some q" using q s' by (simp add: findQuoteById_def)
  then have "createBookingFromQuotation i s' =
      (s', reply 400 False ''Booking already exists for this quotation'')"
    using q f by (simp add: createBookingFromQuotation_def)
  moreover have "length (filter (\<lambda>b. b_quoteRequest b = Some i) (bookings s')) = 1"
    using n s' b' by (simp add: findBookingByQuote_def find_None_filter)
  ultimately show ?thesis using r by simp
qed

text \<open>
  C5. \<open>createBookingFromQuotation\<close> adds a booking only when the quote exists, is
  \<open>approved\<close> and no booking refers to it yet. For a quote with another status it answers
  400 \<open>Quote must be approved before creating booking\<close> (the validation error of the spec)
  and returns the store unchanged. After a call that created a booking, a second call for
  the same quote answers 400 \<open>Booking already exists for this quotation\<close> (the conflict of
  the spec), returns the store unchanged, and exactly one booking refers to the quote.
\<close>

theorem createBookingFromQuotation_guards:
  "(bookings (fst (createBookingFromQuotation i s)) \<noteq> bookings s \<longrightarrow>
      (\<exists>q. findQuoteById i s = Some q \<and> q_status q = ''approved'') \<and>
      findBookingByQuote i s = None) \<and>
   (findQuoteById i s = Some q \<and> q_status q \<noteq> ''approved'' \<longrightarrow>
      createBookingFromQuotation i s =
        (s, reply 400 False ''Quote must be approved before creating booking'')) \<and>
   (r_code (snd (createBookingFromQuotation i s)) = 201 \<longrightarrow>
      createBookingFromQuotation i (fst (createBookingFromQuotation i s)) =
        (fst (createBookingFromQuotation i s),
         reply 400 False ''Booking already exists for this quotation'') \<and>
      length (filter (\<lambda>b. b_quoteRequest b = Some i)
                (bookings (fst (createBookingFromQuotation i s)))) = 1)"
proof -
  have "findQuoteById i s = Some q \<and> q_status q \<noteq> ''approved'' \<longrightarrow>
      createBookingFromQuotation i s =
        (s, reply 400 False ''Quote must be approved before creating booking'')"
    by (simp add: createBookingFromQuotation_def)
  then show ?thesis
    using createBookingFromQuotation_only_when[of i s] createBookingFromQuotation_twice[of i s]
    by blast
qed

theorem createBookingFromQuotation_guards_witness:
  "createBookingFromQuotation 1 (demoStore ''quoted'') =
     (demoStore ''quoted'', reply 400 False ''Quote must be approved before creating booking'') \<and>
   r_code (snd (createBookingFromQuotation 1 approvedStore)) = 201 \<and>
   bookings (fst (createBookingFromQuotation 1 approvedStore)) \<noteq> bookings approvedStore \<and>
   findBookingByQuote 1 approvedStore = None \<and>
   createBookingFromQuotation 1 (fst (createBookingFromQuotation 1 approvedStore)) =
     (fst (createBookingFromQuotation 1 approvedStore),
      reply 400 False ''Booking already exists for this quotation'') \<and>
   length (filter (\<lambda>b. b_quoteRequest b = Some 1)
             (bookings (fst (createBookingFromQuotation 1 approvedStore)))) = 1"
proof -
  have a: "findQuoteById 1 (demoStore ''quoted'') = Some (demoQuote ''quoted'') \<and>
           q_status (demoQuote ''quoted'') \<noteq> ''approved''"
    using demo_found[of "''quoted''"] by (simp add: demoQuote_def)
  have b: "r_code (snd (createBookingFromQuotation 1 approvedStore)) = 201"
    by code_simp
  have c: "bookings (fst (createBookingFromQuotation 1 approvedStore)) \<noteq> bookings approvedStore"
    by code_simp
  show ?thesis
    using createBookingFromQuotation_guards[of 1 "demoStore ''quoted''" "demoQuote ''quoted''"]
          createBookingFromQuotation_guards[of 1 approvedStore "demoQuote ''quoted''"] a b c
    by blast
qed

subsection \<open>Cancelling once\<close>

lemma validateBooking_cancelled:
  "validateBooking b = [] \<Longrightarrow>
   validateBooking (b\<lparr>b_status := ''cancelled'', b_cancellationReason := r,
                      b_cancelledAt := a, b_cancelledBy := u\<rparr>) = []"
  by (simp add: validateBooking_Nil)

text \<open>
  C6. Cancelling a booking that is already \<open>cancelled\<close> answers 400
  \<open>Booking is already cancelled\<close> (the conflict of the spec) and returns the store as it
  was, so the cancellation data of the first cancellation stay. Cancelling a stored booking
  with another status sets the status to \<open>cancelled\<close> and records the reason (trimmed, as
  the schema stores it), the current time as \<open>cancelledAt\<close> and the acting user as
  \<open>cancelledBy\<close>.
\<close>

theorem cancelBooking_once:
  assumes "findBookingById i s = Some b0"
  shows "(b_status b0 = ''cancelled'' \<longrightarrow>
            cancelBooking e req i reason s = (s, reply 400 False ''Booking is already cancelled'')) \<and>
         (b_status b0 \<noteq> ''cancelled'' \<and> validateBooking b0 = [] \<longrightarrow>
            (\<exists>b. findBookingById i (fst (cancelBooking e req i reason s)) = Some b \<and>
                 snd (cancelBooking e req i reason s) = ok 200 ''Booking cancelled successfully'' b \<and>
                 b_status b = ''cancelled'' \<and>
                 b_cancellationReason b = map_option trim reason \<and>
                 b_cancelledAt b = Some (now e) \<and>
                 b_cancelledBy b = Some (req_user req)))"
proof (intro conjI impI)
  assume "b_status b0 = ''cancelled''"
  with assms show "cancelBooking e req i reason s = (s, reply 400 False ''Booking is already cancelled'')"
    by (simp add: cancelBooking_def)
next
  assume a: "b_status b0 \<noteq> ''cancelled'' \<and> validateBooking b0 = []"
  let ?c = "b0\<lparr>b_status := ''cancelled'', b_cancellationReason := map_option trim reason,
                b_cancelledAt := Some (now e), b_cancelledBy := Some (req_user req)\<rparr>"
  let ?s' = "s\<lparr>bookings := map (\<lambda>d. if b_id d = b_id ?c then preSave ?c else d) (bookings s)\<rparr>"
  have i: "b_id ?c = i" using assms by (simp add: findBookingById_id)
  have sv: "saveBooking ?c s = Inr (preSave ?c, ?s')"
    using a by (simp add: saveBooking_Inr validateBooking_cancelled)
  then have r: "cancelBooking e req i reason s =
      (?s', ok 200 ''Booking cancelled successfully'' (preSave ?c))"
    using assms a by (simp add: cancelBooking_def cancel_def)
  have "findBookingById i ?s' = Some (preSave ?c)"
    using saveBooking_find[OF sv] assms i by simp
  then show "\<exists>b. findBookingById i (fst (cancelBooking e req i reason s)) = Some b \<and>
                 snd (cancelBooking e req i reason s) = ok 200 ''Booking cancelled successfully'' b \<and>
                 b_status b = ''cancelled'' \<and>
                 b_cancellationReason b = map_option trim reason \<and>
                 b_cancelledAt b = Some (now e) \<and>
                 b_cancelledBy b = Some (req_user req)"
    unfolding r by simp
qed

lemma demoBooking_found: "findBookingById 5 (bookedStore st) = Some (demoBooking st)"
  by (simp add: findBookingById_def bookedStore_def demoBooking_def)

lemma demoBooking_valid: "validateBooking (demoBooking ''confirmed'') = []"
  by (simp add: validateBooking_def check_def demoBooking_def)

theorem cancelBooking_once_witness:
  "cancelBooking mailUp admin 5 (Some ''again'') (bookedStore ''cancelled'') =
     (bookedStore ''cancelled'', reply 400 False ''Booking is already cancelled'') \<and>
   (\<exists>b. findBookingById 5 (fst (cancelBooking mailUp admin 5 (Some ''plans changed'') (bookedStore ''confirmed'')))
          = Some b \<and>
        snd (cancelBooking mailUp admin 5 (Some ''plans changed'') (bookedStore ''confirmed''))
          = ok 200 ''Booking cancelled successfully'' b \<and>
        b_status b = ''cancelled'' \<and>
        b_cancellationReason b = Some ''plans changed'' \<and>
        b_cancelledAt b = Some (10 * msPerDay + 5) \<and>
        b_cancelledBy b = Some 9)"
proof -
  have c: "b_status (demoBooking ''cancelled'') = ''cancelled''"
    "b_status (demoBooking ''confirmed'') \<noteq> ''cancelled''"
    by (simp_all add: demoBooking_def)
  have t: "map_option trim (Some ''plans changed'') = Some ''plans changed''"
    by (simp add: trim_def isSpace_def)
  have n: "now mailUp = 10 * msPerDay + 5" "req_user admin = 9"
    by (simp_all add: mailUp_def admin_def)
  show ?thesis
    using cancelBooking_once[OF demoBooking_found, of "''cancelled''" mailUp admin "Some ''again''"]
          cancelBooking_once[OF demoBooking_found, of "''confirmed''" mailUp admin "Some ''plans changed''"]
          c demoBooking_valid
    unfolding t n by blast
qed

subsection \<open>The events of a range\<close>

lemma sorted_getByDateRange: "sorted (map fst (getByDateRange a b s))"
  by (simp add: getByDateRange_def)

lemma getByDateRange_member:
  assumes "(d, bk) \<in> set (getByDateRange a b s)"
  shows "b_departureDate bk = Some d \<and> a \<le> d \<and> d \<le> b \<and> bk \<in> set (bookings s)"
proof -
  from assms obtain x where "x \<in> set (bookings s)" "inRange a b x = Some (d, bk)"
    by (auto simp: getByDateRange_def map_filter_def)
  then show ?thesis
    by (auto simp: inRange_def split: option.splits if_splits)
qed

lemma getByDateRange_swapped: "b < a \<Longrightarrow> getByDateRange a b s = []"
proof -
  assume "b < a"
  then have "\<And>x. inRange a b x = None"
    by (auto simp: inRange_def split: option.splits)
  then have "List.map_filter (inRange a b) (bookings s) = []"
    by (simp add: map_filter_def)
  then show ?thesis by (simp add: getByDateRange_def)
qed

text \<open>
  C8, as the code has it. The handler answers 400 \<open>Start and end dates are required\<close>
  when a bound is missing. It does not compare the bounds: with both bounds present it
  answers 200 with the events of the bookings whose departure date lies between them, sorted
  by departure date in ascending order, each ending at the return date of its booking when
  there is one and at the departure date otherwise; when the start lies after the end, that
  list is empty.
\<close>

theorem getCalendarEvents_range:
  "(start = None \<or> end' = None \<longrightarrow>
      getCalendarEvents start end' s = reply 400 False ''Start and end dates are required'') \<and>
   (start = Some a \<and> end' = Some b \<longrightarrow>
      (\<exists>events.
          getCalendarEvents start end' s = ok 200 [] events \<and>
          sorted (map ev_start events) \<and>
          (\<forall>ev \<in> set events.
              rs_booking (ev_resource ev) \<in> set (bookings s) \<and>
              b_departureDate (rs_booking (ev_resource ev)) = Some (ev_start ev) \<and>
              a \<le> ev_start ev \<and> ev_start ev \<le> b \<and>
              ev_end ev = (case b_returnDate (rs_booking (ev_resource ev)) of
                             Some r \<Rightarrow> r | None \<Rightarrow> ev_start ev)) \<and>
          (b < a \<longrightarrow> events = [])))"
proof (intro conjI impI)
  assume "start = None \<or> end' = None"
  then show "getCalendarEvents start end' s = reply 400 False ''Start and end dates are required''"
    by (auto simp: getCalendarEvents_def split: option.splits)
next
  assume se: "start = Some a \<and> end' = Some b"
  let ?evs = "calendarEventsOf a b s"
  have 1: "getCalendarEvents start end' s = ok 200 [] ?evs"
    using se by (simp add: getCalendarEvents_def)
  have m: "map ev_start ?evs = map fst (getByDateRange a b s)"
    by (simp add: calendarEventsOf_def toEvent_def split_beta)
  have 2: "sorted (map ev_start ?evs)"
    unfolding m by (rule sorted_getByDateRange)
  have 3: "\<forall>ev \<in> set ?evs.
              rs_booking (ev_resource ev) \<in> set (bookings s) \<and>
              b_departureDate (rs_booking (ev_resource ev)) = Some (ev_start ev) \<and>
              a \<le> ev_start ev \<and> ev_start ev \<le> b \<and>
              ev_end ev = (case b_returnDate (rs_booking (ev_resource ev)) of
                             Some r \<Rightarrow> r | None \<Rightarrow> ev_start ev)"
  proof
    fix ev assume "ev \<in> set ?evs"
    then obtain d bk where in_range: "(d, bk) \<in> set (getByDateRange a b s)" and ev: "ev = toEvent (d, bk)"
      by (auto simp: calendarEventsOf_def)
    show "rs_booking (ev_resource ev) \<in> set (bookings s) \<and>
              b_departureDate (rs_booking (ev_resource ev)) = Some (ev_start ev) \<and>
              a \<le> ev_start ev \<and> ev_start ev \<le> b \<and>
              ev_end ev = (case b_returnDate (rs_booking (ev_resource ev)) of
                             Some r \<Rightarrow> r | None \<Rightarrow> ev_start ev)"
      using getByDateRange_member[OF in_range] unfolding ev
      by (simp add: toEvent_def split: option.splits)
  qed
  have 4: "b < a \<longrightarrow> ?evs = []"
    by (simp add: calendarEventsOf_def getByDateRange_swapped)
  show "\<exists>events.
          getCalendarEvents start end' s = ok 200 [] events \<and>
          sorted (map ev_start events) \<and>
          (\<forall>ev \<in> set events.
              rs_booking (ev_resource ev) \<in> set (bookings s) \<and>
              b_departureDate (rs_booking (ev_resource ev)) = Some (ev_start ev) \<and>
              a \<le> ev_start ev \<and> ev_start ev \<le> b \<and>
              ev_end ev = (case b_returnDate (rs_booking (ev_resource ev)) of
                             Some r \<Rightarrow> r | None \<Rightarrow> ev_start ev)) \<and>
          (b < a \<longrightarrow> events = [])"
    using 1 2 3 4 by blast
qed

text \<open>
  A range whose start lies after its end is not rejected: the answer is 200 with an empty
  list of events.
\<close>

theorem getCalendarEvents_swapped_counterexample:
  "(30 * msPerDay > 10 * msPerDay) \<and>
   r_code (getCalendarEvents (Some (30 * msPerDay)) (Some (10 * msPerDay)) (bookedStore ''confirmed'')) = 200 \<and>
   r_success (getCalendarEvents (Some (30 * msPerDay)) (Some (10 * msPerDay)) (bookedStore ''confirmed'')) \<and>
   r_data (getCalendarEvents (Some (30 * msPerDay)) (Some (10 * msPerDay)) (bookedStore ''confirmed'')) = Some []"
  by code_simp

theorem getCalendarEvents_range_witness:
  "getCalendarEvents None (Some (30 * msPerDay)) (bookedStore ''confirmed'') =
     reply 400 False ''Start and end dates are required'' \<and>
   getCalendarEvents (Some (10 * msPerDay)) None (bookedStore ''confirmed'') =
     reply 400 False ''Start and end dates are required'' \<and>
   (\<exists>events.
      getCalendarEvents (Some (10 * msPerDay)) (Some (30 * msPerDay)) (bookedStore ''confirmed'') =
        ok 200 [] events \<and>
      sorted (map ev_start events) \<and>
      map ev_start events = [20 * msPerDay] \<and> map ev_end events = [23 * msPerDay])"
proof -
  let ?s = "bookedStore ''confirmed''"
  have e: "r_data (getCalendarEvents (Some (10 * msPerDay)) (Some (30 * msPerDay)) ?s) =
      Some [toEvent (20 * msPerDay, demoBooking ''confirmed'')]"
    by (simp add: getCalendarEvents_def ok_def calendarEventsOf_def getByDateRange_def
        bookedStore_def inRange_def demoBooking_def msPerDay_def)
  from getCalendarEvents_range[of "Some (10 * msPerDay)" "Some (30 * msPerDay)" ?s "10 * msPerDay" "30 * msPerDay"]
  obtain events where g: "getCalendarEvents (Some (10 * msPerDay)) (Some (30 * msPerDay)) ?s =
        ok 200 [] events" and srt: "sorted (map ev_start events)"
    by blast
  from g e have "events = [toEvent (20 * msPerDay, demoBooking ''confirmed'')]"
    by (simp add: ok_def)
  then have "map ev_start events = [20 * msPerDay]" "map ev_end events = [23 * msPerDay]"
    by (simp_all add: toEvent_def demoBooking_def)
  moreover have "getCalendarEvents None (Some (30 * msPerDay)) ?s =
     reply 400 False ''Start and end dates are required''"
    using getCalendarEvents_range[of None "Some (30 * msPerDay)" ?s "10 * msPerDay" "30 * msPerDay"] by simp
  moreover have "getCalendarEvents (Some (10 * msPerDay)) None ?s =
     reply 400 False ''Start and end dates are required''"
    using getCalendarEvents_range[of "Some (10 * msPerDay)" None ?s "10 * msPerDay" "30 * msPerDay"] by simp
  ultimately show ?thesis using g srt by (intro conjI exI[of _ events]) assumption+
qed

subsection \<open>What a status update changes\<close>




end
